theory Spec2Isabelle
  imports Complex_Main "HOL-Library.Word"
begin

unbundle bit_operations_syntax

section \<open>The Discord rich-presence client (pkg/discord-rpc/client)\<close>

text \<open>
  The package keeps one process-wide flag, \<open>logged\<close>, and talks to the companion process
  through the functions \<open>ipc.OpenSocket\<close>, \<open>ipc.Send\<close> and \<open>ipc.CloseSocket\<close>. Every
  function of the package is embedded as a state transformer over that flag and over the
  world outside the package (socket, random source, standard output).
\<close>

type_synonym byte = "8 word"

subsection \<open>JSON documents\<close>

text \<open>
  The value tree that \<open>encoding/json\<close> builds from a Go value (and that \<open>any\<close> holds after
  decoding). Object members keep their order, as the encoder emits struct fields in
  declaration order.
\<close>

datatype json =
    JNull
  | JBool bool
  | JNum rat
  | JStr string
  | JArr "json list"
  | JObj "(string \<times> json) list"

subsection \<open>Errors\<close>

datatype error =
    External string
  | Errorf string error
  | DiscordError json

text \<open>
  \<open>External m\<close> is an error value made outside the package (by \<open>encoding/json\<close>, \<open>ipc\<close>
  or \<open>crypto/rand\<close>); \<open>Errorf m e\<close> is \<open>fmt.Errorf(m + ": %w", e)\<close>;
  \<open>DiscordError d\<close> is \<open>fmt.Errorf("discord error: %v", d)\<close>.
\<close>

subsection \<open>The structs of types.go and response.go\<close>

record Handshake =
  V :: string
  ClientId :: string

record PayloadAssets =
  LargeImage :: string
  LargeText :: string
  SmallImage :: string
  SmallText :: string

record PayloadParty =
  ID :: string
  Size :: "64 word \<times> 64 word"

record PayloadTimestamps =
  Start :: "64 word option"
  End :: "64 word option"

record PayloadSecrets =
  Match :: string
  Join :: string
  Spectate :: string

record PayloadButton =
  Label :: string
  Url :: string

record PayloadActivity =
  Type :: "64 word"
  Details :: string
  State :: string
  Assets :: PayloadAssets
  Party :: "PayloadParty option"
  Timestamps :: "PayloadTimestamps option"
  Secrets :: "PayloadSecrets option"
  Buttons :: "PayloadButton option list"

record Args =
  Pid :: "64 word"
  Activity :: "PayloadActivity option"

record Frame =
  Cmd :: string
  Args :: Args
  Nonce :: string

record Response =
  RCmd :: string
  Data :: json
  Event :: string
  RNonce :: string

record Config =
  CDNHost :: string
  APIEndpoint :: string
  Environment :: string

record User =
  UID :: string
  Username :: string
  Discriminator :: string
  Avatar :: string
  Bot :: bool
  Flags :: "64 word"
  PremiumType :: "64 word"

record HandshakeResponse =
  Version :: "64 word"
  Config :: Config
  User :: User

text \<open>
  Go's \<open>int\<close> is a signed 64-bit word and \<open>uint64\<close> an unsigned one; a pointer is an
  \<open>option\<close> (\<open>None\<close> for nil); the array \<open>[2]int\<close> is a pair. The fields \<open>Cmd\<close>,
  \<open>Nonce\<close> of \<open>Response\<close> and \<open>ID\<close> of \<open>User\<close> are written \<open>RCmd\<close>, \<open>RNonce\<close>,
  \<open>UID\<close> to keep them apart from the fields of \<open>Frame\<close> and \<open>PayloadParty\<close>.
\<close>

subsection \<open>What json.Marshal builds from the struct tags\<close>

text \<open>
  The \<open>omitempty\<close> option leaves a member out when the field is false, 0, a nil
  pointer, or an array, slice, map or string of length zero. A field of struct type
  is none of these, so it is always emitted; so is an array of length two.
\<close>

definition omitempty_string :: "string \<Rightarrow> string \<Rightarrow> (string \<times> json) list" where
  "omitempty_string key s = (if s = [] then [] else [(key, JStr s)])"

definition omitempty_int :: "string \<Rightarrow> 64 word \<Rightarrow> (string \<times> json) list" where
  "omitempty_int key n = (if n = 0 then [] else [(key, JNum (of_int (sint n)))])"

definition omitempty_ptr :: "string \<Rightarrow> ('a \<Rightarrow> json) \<Rightarrow> 'a option \<Rightarrow> (string \<times> json) list" where
  "omitempty_ptr key enc p = (case p of None \<Rightarrow> [] | Some x \<Rightarrow> [(key, enc x)])"

definition omitempty_slice :: "string \<Rightarrow> ('a \<Rightarrow> json) \<Rightarrow> 'a list \<Rightarrow> (string \<times> json) list" where
  "omitempty_slice key enc xs = (if xs = [] then [] else [(key, JArr (map enc xs))])"

definition marshal_ptr :: "('a \<Rightarrow> json) \<Rightarrow> 'a option \<Rightarrow> json" where
  "marshal_ptr enc p = (case p of None \<Rightarrow> JNull | Some x \<Rightarrow> enc x)"

definition marshal_int :: "64 word \<Rightarrow> json" where
  "marshal_int n = JNum (of_int (sint n))"

definition marshal_uint64 :: "64 word \<Rightarrow> json" where
  "marshal_uint64 n = JNum (of_int (uint n))"

definition marshal_Handshake :: "Handshake \<Rightarrow> json" where
  "marshal_Handshake h = JObj [(''v'', JStr (V h)), (''client_id'', JStr (ClientId h))]"

definition marshal_PayloadAssets :: "PayloadAssets \<Rightarrow> json" where
  "marshal_PayloadAssets a = JObj
     (omitempty_string ''large_image'' (LargeImage a) @
      omitempty_string ''large_text'' (LargeText a) @
      omitempty_string ''small_image'' (SmallImage a) @
      omitempty_string ''small_text'' (SmallText a))"

definition marshal_PayloadParty :: "PayloadParty \<Rightarrow> json" where
  "marshal_PayloadParty p = JObj
     (omitempty_string ''id'' (ID p) @
      [(''size'', JArr [marshal_int (fst (Size p)), marshal_int (snd (Size p))])])"

definition marshal_PayloadTimestamps :: "PayloadTimestamps \<Rightarrow> json" where
  "marshal_PayloadTimestamps t = JObj
     (omitempty_ptr ''start'' marshal_uint64 (Start t) @
      omitempty_ptr ''end'' marshal_uint64 (End t))"

definition marshal_PayloadSecrets :: "PayloadSecrets \<Rightarrow> json" where
  "marshal_PayloadSecrets x = JObj
     (omitempty_string ''match'' (Match x) @
      omitempty_string ''join'' (Join x) @
      omitempty_string ''spectate'' (Spectate x))"

definition marshal_PayloadButton :: "PayloadButton \<Rightarrow> json" where
  "marshal_PayloadButton b = JObj
     (omitempty_string ''label'' (Label b) @
      omitempty_string ''url'' (Url b))"

definition marshal_PayloadActivity :: "PayloadActivity \<Rightarrow> json" where
  "marshal_PayloadActivity a = JObj
     (omitempty_int ''type'' (Type a) @
      omitempty_string ''details'' (Details a) @
      omitempty_string ''state'' (State a) @
      [(''assets'', marshal_PayloadAssets (Assets a))] @
      omitempty_ptr ''party'' marshal_PayloadParty (Party a) @
      omitempty_ptr ''timestamps'' marshal_PayloadTimestamps (Timestamps a) @
      omitempty_ptr ''secrets'' marshal_PayloadSecrets (Secrets a) @
      omitempty_slice ''buttons'' (marshal_ptr marshal_PayloadButton) (Buttons a))"

definition marshal_Args :: "Args \<Rightarrow> json" where
  "marshal_Args a = JObj
     [(''pid'', marshal_int (Pid a)),
      (''activity'', marshal_ptr marshal_PayloadActivity (Activity a))]"

definition marshal_Frame :: "Frame \<Rightarrow> json" where
  "marshal_Frame f = JObj
     [(''cmd'', JStr (Cmd f)),
      (''args'', marshal_Args (Args f)),
      (''nonce'', JStr (Nonce f))]"

definition member_names :: "json \<Rightarrow> string list" where
  "member_names doc = (case doc of JObj members \<Rightarrow> map fst members | _ \<Rightarrow> [])"

subsection \<open>The environment of the package\<close>

text \<open>
  The standard library and the \<open>ipc\<close> package are not part of the client; they are
  parameters of the embedding. \<open>'w\<close> is the world outside the package. \<open>json_Marshal\<close> is
  the text layer of \<open>json.Marshal\<close> (with its error result), the two \<open>json_Unmarshal\<close>
  functions are \<open>json.Unmarshal\<close> into a zero \<open>Response\<close> and a zero
  \<open>HandshakeResponse\<close>, and \<open>rand_Read n\<close> yields the bytes the random source delivered
  for a buffer of \<open>n\<close> bytes together with its error result.

  The functions of the package are given on the calls that return. The one place where
  the Go runtime may end the process instead is \<open>crypto/rand.Read\<close>; that is the subject
  of \<open>crypto_rand_Read\<close> and \<open>getNonce_on\<close> below.
\<close>

record 'w env =
  json_Marshal :: "json \<Rightarrow> error + string"
  json_Unmarshal_Response :: "string \<Rightarrow> error + Response"
  json_Unmarshal_HandshakeResponse :: "string \<Rightarrow> error + HandshakeResponse"
  ipc_OpenSocket :: "'w \<Rightarrow> error option \<times> 'w"
  ipc_Send :: "32 word \<Rightarrow> string \<Rightarrow> 'w \<Rightarrow> (error + string) \<times> 'w"
  ipc_CloseSocket :: "'w \<Rightarrow> error option \<times> 'w"
  os_Getpid :: "'w \<Rightarrow> 64 word"
  rand_Read :: "nat \<Rightarrow> 'w \<Rightarrow> (byte list \<times> error option) \<times> 'w"
  fmt_Println :: "error \<Rightarrow> 'w \<Rightarrow> 'w"

record 'w state =
  logged :: bool
  world :: 'w

subsection \<open>getNonce\<close>

definition hex_digit :: "nat \<Rightarrow> char" where
  "hex_digit n = ''0123456789abcdef'' ! (n mod 16)"

definition hex_byte :: "byte \<Rightarrow> string" where
  "hex_byte b = [hex_digit (unat b div 16), hex_digit (unat b mod 16)]"

definition hex :: "byte list \<Rightarrow> string" where
  "hex bs = concat (map hex_byte bs)"

definition subslice :: "nat \<Rightarrow> nat \<Rightarrow> 'a list \<Rightarrow> 'a list" where
  "subslice lo hi xs = take (hi - lo) (drop lo xs)"

definition read_into :: "byte list \<Rightarrow> byte list \<Rightarrow> byte list" where
  "read_into buf rs = take (length buf) rs @ drop (length rs) buf"

definition getNonce :: "'w env \<Rightarrow> 'w \<Rightarrow> string \<times> 'w" where
  "getNonce env w =
     (let buf = replicate 16 (0 :: byte);
          (r, w1) = rand_Read env (length buf) w;
          buf = read_into buf (fst r);
          w2 = (case snd r of None \<Rightarrow> w1 | Some err \<Rightarrow> fmt_Println env err w1);
          buf = buf[6 := (buf ! 6 AND 0x0f) OR 0x40]
      in (hex (subslice 0 4 buf) @ ''-'' @ hex (subslice 4 6 buf) @ ''-'' @ hex (subslice 6 8 buf) @ ''-'' @
          hex (subslice 8 10 buf) @ ''-'' @ hex (subslice 10 (length buf) buf), w2))"

text \<open>The buffer that \<open>getNonce\<close> formats: the 16 bytes read, with byte 6 patched.\<close>

definition nonce_buf :: "'w env \<Rightarrow> 'w \<Rightarrow> byte list" where
  "nonce_buf env w =
     (let buf = read_into (replicate 16 0) (fst (fst (rand_Read env 16 w)))
      in buf[6 := (buf ! 6 AND 0x0f) OR 0x40])"

text \<open>
  What \<open>crypto/rand.Read\<close> does with the answer of the random source depends on the Go
  toolchain, which nothing in the repository pins. Before Go 1.24 it hands the bytes and
  the error to its caller. From Go 1.24 on it returns only when the source reported no
  error; when the source fails it ends the process with a fatal error, which is not a
  panic and cannot be recovered: then nothing that called it returns. \<open>None\<close> is that
  ended process.
\<close>

datatype toolchain = Before_Go_1_24 | Since_Go_1_24

definition crypto_rand_Read ::
  "toolchain \<Rightarrow> 'w env \<Rightarrow> nat \<Rightarrow> 'w \<Rightarrow> ((byte list \<times> error option) \<times> 'w) option" where
  "crypto_rand_Read tc env n w =
     (case snd (fst (rand_Read env n w)) of
        None \<Rightarrow> Some (rand_Read env n w)
      | Some err \<Rightarrow>
         (case tc of
            Before_Go_1_24 \<Rightarrow> Some (rand_Read env n w)
          | Since_Go_1_24 \<Rightarrow> None))"

text \<open>
  \<open>getNonce\<close> on a toolchain: the process ends inside \<open>rand.Read\<close>, or \<open>rand.Read\<close>
  returns and \<open>getNonce\<close> goes on as defined above.
\<close>

definition getNonce_on :: "toolchain \<Rightarrow> 'w env \<Rightarrow> 'w \<Rightarrow> (string \<times> 'w) option" where
  "getNonce_on tc env w =
     (case crypto_rand_Read tc env 16 w of
        None \<Rightarrow> None
      | Some _ \<Rightarrow> Some (getNonce env w))"

subsection \<open>Login, Logout, SetActivity\<close>

definition Login :: "'w env \<Rightarrow> string \<Rightarrow> 'w state \<Rightarrow> error option \<times> 'w state" where
  "Login env clientid s =
     (if \<not> logged s then
        (case json_Marshal env (marshal_Handshake \<lparr>V = ''1'', ClientId = clientid\<rparr>) of
           Inl err \<Rightarrow> (Some err, s)
         | Inr payload \<Rightarrow>
            (let (r1, w1) = ipc_OpenSocket env (world s) in
             case r1 of
               Some err \<Rightarrow> (Some err, s\<lparr>world := w1\<rparr>)
             | None \<Rightarrow>
                (let (r2, w2) = ipc_Send env 0 payload w1 in
                 case r2 of
                   Inl err \<Rightarrow> (Some (Errorf ''failed to send handshake'' err), s\<lparr>world := w2\<rparr>)
                 | Inr resp \<Rightarrow>
                    (case json_Unmarshal_Response env resp of
                       Inl err \<Rightarrow> (Some (Errorf ''failed to parse response'' err), s\<lparr>world := w2\<rparr>)
                     | Inr response \<Rightarrow>
                        if Event response = ''ERROR'' then
                          (Some (DiscordError (Data response)), s\<lparr>world := w2\<rparr>)
                        else
                          (case json_Marshal env (Data response) of
                             Inl _ \<Rightarrow> (None, s\<lparr>world := w2, logged := True\<rparr>)
                           | Inr respData \<Rightarrow>
                              (case json_Unmarshal_HandshakeResponse env respData of
                                 Inl err \<Rightarrow>
                                   (Some (Errorf ''failed to parse handshake response'' err),
                                    s\<lparr>world := w2\<rparr>)
                               | Inr handshakeResp \<Rightarrow> (None, s\<lparr>world := w2, logged := True\<rparr>)))))))
      else (None, s\<lparr>logged := True\<rparr>))"

datatype outcome = Returned | Panicked error

definition Logout :: "'w env \<Rightarrow> 'w state \<Rightarrow> outcome \<times> 'w state" where
  "Logout env s =
     (let s1 = s\<lparr>logged := False\<rparr>;
          (r, w1) = ipc_CloseSocket env (world s1)
      in case r of
           Some err \<Rightarrow> (Panicked err, s1\<lparr>world := w1\<rparr>)
         | None \<Rightarrow> (Returned, s1\<lparr>world := w1\<rparr>))"

definition SetActivity :: "'w env \<Rightarrow> PayloadActivity \<Rightarrow> 'w state \<Rightarrow> error option \<times> 'w state" where
  "SetActivity env activity s =
     (if \<not> logged s then (None, s)
      else
        (let pid = os_Getpid env (world s);
             (nonce, w1) = getNonce env (world s)
         in case json_Marshal env (marshal_Frame
                   \<lparr>Cmd = ''SET_ACTIVITY'',
                    Args = \<lparr>Pid = pid, Activity = Some activity\<rparr>,
                    Nonce = nonce\<rparr>) of
              Inl err \<Rightarrow> (Some err, s\<lparr>world := w1\<rparr>)
            | Inr payload \<Rightarrow>
               (let (r, w2) = ipc_Send env 1 payload w1 in
                case r of
                  Inl err \<Rightarrow> (Some (Errorf ''failed to send activity'' err), s\<lparr>world := w2\<rparr>)
                | Inr resp \<Rightarrow>
                   (case json_Unmarshal_Response env resp of
                      Inl err \<Rightarrow> (Some (Errorf ''failed to parse response'' err), s\<lparr>world := w2\<rparr>)
                    | Inr response \<Rightarrow>
                       if Event response = ''ERROR'' then
                         (Some (DiscordError (Data response)), s\<lparr>world := w2\<rparr>)
                       else (None, s\<lparr>world := w2\<rparr>)))))"

subsection \<open>The request documents as the specification writes them\<close>

text \<open>
  The specification gives the two request payloads as documents:
  \<open>{v: "1", client_id: <string>}\<close> for the handshake and
  \<open>{cmd: "SET_ACTIVITY", args: {pid: <int>, activity: <ActivityPayload>}, nonce: <CorrelationId>}\<close>
  for a presence update. These two definitions follow those words; they are compared
  below with what \<open>json.Marshal\<close> builds from the structs.
\<close>

definition spec_handshake_payload :: "string \<Rightarrow> json" where
  "spec_handshake_payload clientid = JObj [(''v'', JStr ''1''), (''client_id'', JStr clientid)]"

definition spec_message_payload :: "int \<Rightarrow> json \<Rightarrow> string \<Rightarrow> json" where
  "spec_message_payload pid activity nonce =
     JObj [(''cmd'', JStr ''SET_ACTIVITY''),
           (''args'', JObj [(''pid'', JNum (of_int pid)), (''activity'', activity)]),
           (''nonce'', JStr nonce)]"

section \<open>The frame codec\<close>

text \<open>
  Modelled from the spec: the frame codec lives in the package \<open>ipc\<close>, which is not among
  the sources. A frame is an 8-byte header, the opcode and then the payload length, both
  unsigned 32-bit little-endian, followed by the raw payload bytes. \<open>decode\<close> reads exactly
  8 header bytes and then exactly \<open>length\<close> payload bytes from the stream, and fails with
  \<open>TruncatedFrame\<close> when the stream ends before that; it returns the frame and the rest
  of the stream. The stream is the list of bytes that arrive before it is closed. The
  specification's \<open>Frame\<close> is the record \<open>WireFrame\<close> here, and its field \<open>length\<close> is
  \<open>len\<close>, to keep them apart from the struct \<open>Frame\<close> of the client and from the length
  of a list.
\<close>

record WireFrame =
  opcode :: "32 word"
  len :: "32 word"
  payload :: "byte list"

datatype codec_error = TruncatedFrame

definition put_u32le :: "32 word \<Rightarrow> byte list" where
  "put_u32le x = [ucast x, ucast (drop_bit 8 x), ucast (drop_bit 16 x), ucast (drop_bit 24 x)]"

definition get_u32le :: "byte list \<Rightarrow> 32 word" where
  "get_u32le bs =
     ucast (bs ! 0) OR push_bit 8 (ucast (bs ! 1)) OR
     push_bit 16 (ucast (bs ! 2)) OR push_bit 24 (ucast (bs ! 3))"

definition encode :: "32 word \<Rightarrow> byte list \<Rightarrow> byte list" where
  "encode opc bs = put_u32le opc @ put_u32le (of_nat (length bs)) @ bs"

definition decode :: "byte list \<Rightarrow> codec_error + (WireFrame \<times> byte list)" where
  "decode stream =
     (if length stream < 8 then Inl TruncatedFrame
      else
        (let opc = get_u32le (take 4 stream);
             n = get_u32le (take 4 (drop 4 stream));
             rest = drop 8 stream
         in if length rest < unat n then Inl TruncatedFrame
            else Inr (\<lparr>opcode = opc, len = n, payload = take (unat n) rest\<rparr>,
                      drop (unat n) rest)))"

section \<open>A companion process to run the client against\<close>

text \<open>
  Modelled from the spec: the package \<open>ipc\<close> (\<open>OpenSocket\<close>, \<open>Send\<close>, \<open>CloseSocket\<close>) is not
  among the sources. The Connection is open or not; \<open>OpenSocket\<close> opens it when one of
  the endpoint candidates 0 to 9 can be opened and fails with \<open>EndpointExhausted\<close>
  otherwise; \<open>Send\<close> writes one frame and blocks for exactly one reply frame, whose
  payload it returns; a transport error closes the Connection; \<open>CloseSocket\<close> closes the
  Connection and may report a close failure. The record also holds the rest of the world
  the client touches: the random source, the process id and the standard output. The
  random source is a reader over the bytes \<open>entropy\<close>, read in full as \<open>io.ReadFull\<close> reads
  \<open>rand.Reader\<close>: when the bytes run out it delivers what is left and reports \<open>EOF\<close>, or
  \<open>unexpected EOF\<close> after a partial read.
\<close>

record sim =
  sock_open :: bool
  endpoint_available :: bool
  close_fails :: bool
  outbox :: "(32 word \<times> string) list"
  inbox :: "string list"
  entropy :: "byte list"
  process_id :: "64 word"
  stdout :: "error list"

definition OpenSocket :: "sim \<Rightarrow> error option \<times> sim" where
  "OpenSocket w =
     (if endpoint_available w then (None, w\<lparr>sock_open := True\<rparr>)
      else (Some (External ''EndpointExhausted''), w))"

definition Send :: "32 word \<Rightarrow> string \<Rightarrow> sim \<Rightarrow> (error + string) \<times> sim" where
  "Send opc body w =
     (if \<not> sock_open w then (Inl (External ''not connected''), w)
      else
        (case inbox w of
           [] \<Rightarrow> (Inl (External ''TruncatedFrame''),
                  w\<lparr>outbox := outbox w @ [(opc, body)], sock_open := False\<rparr>)
         | reply # later \<Rightarrow> (Inr reply, w\<lparr>outbox := outbox w @ [(opc, body)], inbox := later\<rparr>)))"

definition CloseSocket :: "sim \<Rightarrow> error option \<times> sim" where
  "CloseSocket w =
     (if close_fails w then (Some (External ''close failed''), w\<lparr>sock_open := False\<rparr>)
      else (None, w\<lparr>sock_open := False\<rparr>))"

definition Reader_ReadFull :: "nat \<Rightarrow> sim \<Rightarrow> (byte list \<times> error option) \<times> sim" where
  "Reader_ReadFull n w =
     ((take n (entropy w),
       if n \<le> length (entropy w) then None
       else if entropy w = [] then Some (External ''EOF'')
       else Some (External ''unexpected EOF'')),
      w\<lparr>entropy := drop n (entropy w)\<rparr>)"

definition Println :: "error \<Rightarrow> sim \<Rightarrow> sim" where
  "Println err w = w\<lparr>stdout := stdout w @ [err]\<rparr>"

text \<open>
  The text layer of \<open>encoding/json\<close> on the documents of the examples below, as tables:
  each entry is the text the encoder emits for the document, or the value the decoder
  builds from the text. Anything else is refused.
\<close>

definition handshake_text :: string where
  \<open>handshake_text = ''{"v":"1","client_id":"abc123"}''\<close>

definition update_text :: string where
  \<open>update_text =
     ''{"cmd":"SET_ACTIVITY","args":{"pid":4242,"activity":{"details":"Playing",'' @
     ''"state":"In Game","assets":{},"timestamps":{"start":1700000000}}},'' @
     ''"nonce":"00010203-0405-4607-0809-0a0b0c0d0e0f"}''\<close>

definition dispatch_reply :: string where
  \<open>dispatch_reply = ''{"cmd":"DISPATCH","data":{"v":1,"config":{},"user":{}}}''\<close>

definition ack_reply :: string where
  \<open>ack_reply = ''{"cmd":"SET_ACTIVITY","data":{}}''\<close>

definition error_reply :: string where
  \<open>error_reply = ''{"evt":"ERROR","data":"invalid client id"}''\<close>

definition example_Marshal :: "json \<Rightarrow> error + string" where
  \<open>example_Marshal doc =
     (if doc = JObj [(''v'', JStr ''1''), (''client_id'', JStr ''abc123'')]
        then Inr handshake_text
      else if doc = JObj [(''v'', JNum 1), (''config'', JObj []), (''user'', JObj [])]
        then Inr ''{"config":{},"user":{},"v":1}''
      else if doc = JStr ''invalid client id''
        then Inr ''"invalid client id"''
      else if doc = JObj
          [(''cmd'', JStr ''SET_ACTIVITY''),
           (''args'', JObj
              [(''pid'', JNum 4242),
               (''activity'', JObj
                  [(''details'', JStr ''Playing''),
                   (''state'', JStr ''In Game''),
                   (''assets'', JObj []),
                   (''timestamps'', JObj [(''start'', JNum 1700000000)])])]),
           (''nonce'', JStr ''00010203-0405-4607-0809-0a0b0c0d0e0f'')]
        then Inr update_text
      else Inl (External ''not in the table''))\<close>

definition example_Unmarshal_Response :: "string \<Rightarrow> error + Response" where
  \<open>example_Unmarshal_Response txt =
     (if txt = dispatch_reply
        then Inr \<lparr>RCmd = ''DISPATCH'',
                  Data = JObj [(''v'', JNum 1), (''config'', JObj []), (''user'', JObj [])],
                  Event = [], RNonce = []\<rparr>
      else if txt = ack_reply
        then Inr \<lparr>RCmd = ''SET_ACTIVITY'', Data = JObj [], Event = [], RNonce = []\<rparr>
      else if txt = error_reply
        then Inr \<lparr>RCmd = [], Data = JStr ''invalid client id'', Event = ''ERROR'', RNonce = []\<rparr>
      else Inl (External ''not in the table''))\<close>

definition zero_Config :: Config where
  "zero_Config = \<lparr>CDNHost = '''', APIEndpoint = '''', Environment = ''''\<rparr>"

definition zero_User :: User where
  "zero_User = \<lparr>UID = '''', Username = '''', Discriminator = '''', Avatar = '''', Bot = False,
                 Flags = 0, PremiumType = 0\<rparr>"

definition example_Unmarshal_HandshakeResponse :: "string \<Rightarrow> error + HandshakeResponse" where
  \<open>example_Unmarshal_HandshakeResponse txt =
     (if txt = ''{"config":{},"user":{},"v":1}''
        then Inr \<lparr>Version = 1, Config = zero_Config, User = zero_User\<rparr>
      else Inl (External ''not in the table''))\<close>

definition sim_env :: "sim env" where
  "sim_env =
     \<lparr>json_Marshal = example_Marshal,
      json_Unmarshal_Response = example_Unmarshal_Response,
      json_Unmarshal_HandshakeResponse = example_Unmarshal_HandshakeResponse,
      ipc_OpenSocket = OpenSocket,
      ipc_Send = Send,
      ipc_CloseSocket = CloseSocket,
      os_Getpid = process_id,
      rand_Read = Reader_ReadFull,
      fmt_Println = Println\<rparr>"

definition fresh :: sim where
  "fresh =
     \<lparr>sock_open = False, endpoint_available = True, close_fails = False,
      outbox = [], inbox = [],
      entropy = [0, 1, 2, 3, 4, 5, 6, 7, 8, 9, 10, 11, 12, 13, 14, 15],
      process_id = 4242, stdout = []\<rparr>"

definition zero_PayloadAssets :: PayloadAssets where
  "zero_PayloadAssets = \<lparr>LargeImage = '''', LargeText = '''', SmallImage = '''', SmallText = ''''\<rparr>"

definition zero_PayloadActivity :: PayloadActivity where
  "zero_PayloadActivity =
     \<lparr>Type = 0, Details = '''', State = '''', Assets = zero_PayloadAssets, Party = None,
      Timestamps = None, Secrets = None, Buttons = []\<rparr>"

definition playing :: PayloadActivity where
  "playing = zero_PayloadActivity
     \<lparr>Type := 0, Details := ''Playing'', State := ''In Game'',
      Timestamps := Some \<lparr>Start = Some 1700000000, End = None\<rparr>\<rparr>"

text \<open>
  Two starting states: not logged in, with the companion about to send the given replies;
  and Ready, on an open Connection, with the given replies pending.
\<close>

definition before_login :: "string list \<Rightarrow> sim state" where
  "before_login replies = \<lparr>logged = False, world = fresh\<lparr>inbox := replies\<rparr>\<rparr>"

definition ready :: "string list \<Rightarrow> sim state" where
  "ready replies = \<lparr>logged = True, world = fresh\<lparr>sock_open := True, inbox := replies\<rparr>\<rparr>"

section \<open>Properties\<close>

subsection \<open>Helper facts\<close>

lemmas sim_defs =
  sim_env_def fresh_def OpenSocket_def Send_def CloseSocket_def Reader_ReadFull_def Println_def
  example_Marshal_def example_Unmarshal_Response_def example_Unmarshal_HandshakeResponse_def
  handshake_text_def update_text_def dispatch_reply_def ack_reply_def error_reply_def
  before_login_def ready_def

lemmas marshal_defs =
  marshal_Handshake_def marshal_Frame_def marshal_Args_def marshal_PayloadActivity_def
  marshal_PayloadAssets_def marshal_PayloadParty_def marshal_PayloadTimestamps_def
  marshal_PayloadSecrets_def marshal_PayloadButton_def marshal_ptr_def marshal_int_def
  marshal_uint64_def omitempty_string_def omitempty_int_def omitempty_ptr_def
  omitempty_slice_def

lemma marshal_Handshake_spec:
  "marshal_Handshake \<lparr>V = ''1'', ClientId = clientid\<rparr> = spec_handshake_payload clientid"
  by (simp add: marshal_Handshake_def spec_handshake_payload_def)

lemma marshal_Frame_spec:
  "marshal_Frame
     \<lparr>Cmd = ''SET_ACTIVITY'', Args = \<lparr>Pid = pid, Activity = Some activity\<rparr>, Nonce = nonce\<rparr> =
   spec_message_payload (sint pid) (marshal_PayloadActivity activity) nonce"
  by (simp add: marshal_Frame_def marshal_Args_def marshal_int_def marshal_ptr_def
      spec_message_payload_def)

lemma getNonce_ready:
  "getNonce sim_env (world (ready rs)) =
     (''00010203-0405-4607-0809-0a0b0c0d0e0f'', (world (ready rs))\<lparr>entropy := []\<rparr>)"
  by (simp add: getNonce_def sim_defs read_into_def hex_def hex_byte_def hex_digit_def
      subslice_def Let_def)

lemma marshal_playing:
  "marshal_PayloadActivity playing =
     JObj [(''details'', JStr ''Playing''), (''state'', JStr ''In Game''), (''assets'', JObj []),
           (''timestamps'', JObj [(''start'', JNum 1700000000)])]"
  by (simp add: playing_def zero_PayloadActivity_def zero_PayloadAssets_def marshal_defs)

lemma Marshal_update:
  "json_Marshal sim_env
     (spec_message_payload (sint (os_Getpid sim_env (world (ready rs))))
        (marshal_PayloadActivity playing) (fst (getNonce sim_env (world (ready rs))))) =
   Inr update_text"
  by (simp add: getNonce_ready marshal_playing spec_message_payload_def)
     (simp add: sim_env_def example_Marshal_def ready_def fresh_def)

lemma Send_update:
  "ipc_Send sim_env 1 update_text (snd (getNonce sim_env (world (ready (r # rs))))) =
     (Inr r, (world (ready rs))\<lparr>entropy := [], outbox := [(1, update_text)]\<rparr>)"
  by (simp add: getNonce_ready) (simp add: sim_env_def Send_def ready_def fresh_def)

subsection \<open>Presence updates\<close>

text \<open>
  C1. While the session is not Ready (the flag \<open>logged\<close> is false: before any successful
  login, or after a logout), \<open>SetActivity\<close> returns nil for every payload and leaves the
  whole state as it was, whatever the ipc package does: no socket call is made, so no
  frame is written.
\<close>

theorem SetActivity_noop_when_not_logged:
  "(\<not> logged s \<longrightarrow> SetActivity env activity s = (None, s)) \<and>
   SetActivity env activity (snd (Logout env s)) = (None, snd (Logout env s))"
  by (simp add: SetActivity_def Logout_def Let_def case_prod_beta split: option.splits)

theorem SetActivity_noop_when_not_logged_witness:
  "\<not> logged (before_login []) \<and>
   SetActivity sim_env playing (before_login []) = (None, before_login []) \<and>
   outbox (world (snd (SetActivity sim_env playing (before_login [])))) = []"
  using SetActivity_noop_when_not_logged [of "before_login []" sim_env playing]
  by (simp add: before_login_def fresh_def)

text \<open>
  C2. When the session is Ready and a reply was received and decoded, \<open>SetActivity\<close>
  fails exactly when the reply's event tag is \<open>ERROR\<close>, and then with the discord error
  that carries the reply's data; every other tag, the absent (empty) one included, gives
  nil. In both cases the flag \<open>logged\<close> is still true afterwards.
\<close>

theorem SetActivity_fails_iff_error_event:
  assumes "logged s"
    and "json_Marshal env (spec_message_payload (sint (os_Getpid env (world s)))
           (marshal_PayloadActivity activity) (fst (getNonce env (world s)))) = Inr body"
    and "ipc_Send env 1 body (snd (getNonce env (world s))) = (Inr resp, w')"
    and "json_Unmarshal_Response env resp = Inr response"
  shows "fst (SetActivity env activity s) =
           (if Event response = ''ERROR'' then Some (DiscordError (Data response)) else None) \<and>
         (fst (SetActivity env activity s) \<noteq> None) = (Event response = ''ERROR'') \<and>
         snd (SetActivity env activity s) = s\<lparr>world := w'\<rparr> \<and>
         logged (snd (SetActivity env activity s))"
  using assms
  by (simp add: SetActivity_def Let_def case_prod_beta marshal_Frame_spec)

theorem SetActivity_fails_iff_error_event_witness:
  "logged (ready [error_reply]) \<and>
   json_Unmarshal_Response sim_env error_reply =
     Inr \<lparr>RCmd = '''', Data = JStr ''invalid client id'', Event = ''ERROR'', RNonce = ''''\<rparr> \<and>
   fst (SetActivity sim_env playing (ready [error_reply])) =
     Some (DiscordError (JStr ''invalid client id'')) \<and>
   logged (snd (SetActivity sim_env playing (ready [error_reply])))"
proof -
  have a: "logged (ready [error_reply])"
    by (simp add: ready_def)
  have d: "json_Unmarshal_Response sim_env error_reply =
      Inr \<lparr>RCmd = '''', Data = JStr ''invalid client id'', Event = ''ERROR'', RNonce = ''''\<rparr>"
    by (simp add: sim_defs)
  from SetActivity_fails_iff_error_event [OF a Marshal_update Send_update d] a d
  show ?thesis by simp
qed

text \<open>
  C5. When the session is Ready (and the request document could be encoded),
  \<open>SetActivity\<close> makes exactly one call of \<open>ipc.Send\<close>: with opcode 1 and, as payload, the
  text of the document \<open>{cmd: "SET_ACTIVITY", args: {pid, activity}, nonce}\<close>, where \<open>pid\<close>
  is the caller's process id, \<open>activity\<close> the serialized payload and \<open>nonce\<close> the
  identifier that this call of \<open>getNonce\<close> generated. Nothing else touches the world, so
  one frame is written and one reply frame is awaited.
\<close>

theorem SetActivity_sends_one_message_frame:
  assumes "logged s"
    and "json_Marshal env (spec_message_payload (sint (os_Getpid env (world s)))
           (marshal_PayloadActivity activity) (fst (getNonce env (world s)))) = Inr body"
  shows "snd (SetActivity env activity s) =
           s\<lparr>world := snd (ipc_Send env 1 body (snd (getNonce env (world s))))\<rparr>"
  using assms
  by (simp add: SetActivity_def Let_def case_prod_beta marshal_Frame_spec split: sum.splits)

theorem SetActivity_sends_one_message_frame_witness:
  "logged (ready [ack_reply]) \<and>
   SetActivity sim_env playing (ready [ack_reply]) =
     (None, \<lparr>logged = True,
             world = fresh\<lparr>sock_open := True, inbox := [], entropy := [],
                           outbox := [(1, update_text)]\<rparr>\<rparr>)"
proof -
  have a: "logged (ready [ack_reply])"
    by (simp add: ready_def)
  have r: "fst (SetActivity sim_env playing (ready [ack_reply])) = None"
    by (simp add: SetActivity_def Let_def case_prod_beta marshal_Frame_spec Marshal_update
        Send_update a)
       (simp add: sim_defs)
  from SetActivity_sends_one_message_frame [OF a Marshal_update] r a
  show ?thesis
    by (simp add: Send_update prod_eq_iff) (simp add: ready_def)
qed

subsection \<open>Login and Logout\<close>

lemma Login_rejected_example:
  "Login sim_env ''abc123'' (before_login [error_reply]) =
     (Some (DiscordError (JStr ''invalid client id'')),
      \<lparr>logged = False,
       world = fresh\<lparr>sock_open := True, inbox := [], outbox := [(0, handshake_text)]\<rparr>\<rparr>)"
  by (simp add: Login_def Let_def case_prod_beta marshal_Handshake_def) (simp add: sim_defs)

text \<open>
  C3, as the code has it. When the handshake reply carries the event tag \<open>ERROR\<close>,
  \<open>Login\<close> fails with the discord error that carries the reply's data and the flag
  \<open>logged\<close> stays false, so a following \<open>SetActivity\<close> is still a no-op that returns nil.
  \<open>Login\<close> makes no call of \<open>ipc.CloseSocket\<close>: the world is left as \<open>ipc.Send\<close> left it.
\<close>

theorem Login_rejected_keeps_not_logged:
  assumes "\<not> logged s"
    and "json_Marshal env (spec_handshake_payload clientid) = Inr body"
    and "ipc_OpenSocket env (world s) = (None, w1)"
    and "ipc_Send env 0 body w1 = (Inr resp, w2)"
    and "json_Unmarshal_Response env resp = Inr response"
    and "Event response = ''ERROR''"
  shows "Login env clientid s = (Some (DiscordError (Data response)), s\<lparr>world := w2\<rparr>) \<and>
         \<not> logged (snd (Login env clientid s)) \<and>
         SetActivity env activity (snd (Login env clientid s)) = (None, snd (Login env clientid s))"
  using assms
  by (simp add: Login_def SetActivity_def Let_def case_prod_beta marshal_Handshake_spec)

theorem Login_rejected_keeps_not_logged_witness:
  "\<not> logged (before_login [error_reply]) \<and>
   fst (Login sim_env ''abc123'' (before_login [error_reply])) =
     Some (DiscordError (JStr ''invalid client id'')) \<and>
   \<not> logged (snd (Login sim_env ''abc123'' (before_login [error_reply]))) \<and>
   fst (SetActivity sim_env playing (snd (Login sim_env ''abc123'' (before_login [error_reply])))) =
     None"
proof -
  let ?response =
    "\<lparr>RCmd = [], Data = JStr ''invalid client id'', Event = ''ERROR'', RNonce = []\<rparr>"
  have a: "\<not> logged (before_login [error_reply])"
    by (simp add: before_login_def)
  have b: "json_Marshal sim_env (spec_handshake_payload ''abc123'') = Inr handshake_text"
    by (simp add: spec_handshake_payload_def sim_env_def example_Marshal_def)
  have c: "ipc_OpenSocket sim_env (world (before_login [error_reply])) =
      (None, fresh\<lparr>inbox := [error_reply], sock_open := True\<rparr>)"
    by (simp add: sim_defs)
  have d: "ipc_Send sim_env 0 handshake_text (fresh\<lparr>inbox := [error_reply], sock_open := True\<rparr>) =
      (Inr error_reply, fresh\<lparr>inbox := [], sock_open := True, outbox := [(0, handshake_text)]\<rparr>)"
    by (simp add: sim_env_def Send_def fresh_def)
  have e: "json_Unmarshal_Response sim_env error_reply = Inr ?response"
    by (simp add: sim_defs)
  have f: "Event ?response = ''ERROR''"
    by simp
  note L = Login_rejected_keeps_not_logged [OF a b c d e f, of playing]
  have 1: "fst (Login sim_env ''abc123'' (before_login [error_reply])) =
      Some (DiscordError (JStr ''invalid client id''))"
    using L [THEN conjunct1] by simp
  have 2: "\<not> logged (snd (Login sim_env ''abc123'' (before_login [error_reply])))"
    by (rule L [THEN conjunct2, THEN conjunct1])
  have 3: "fst (SetActivity sim_env playing
      (snd (Login sim_env ''abc123'' (before_login [error_reply])))) = None"
    by (simp only: L [THEN conjunct2, THEN conjunct2] fst_conv)
  from a 1 2 3 show ?thesis by blast
qed

text \<open>
  The Connection after such a rejected login is still open: the opposite of what C3
  says of it.
\<close>

theorem Login_rejected_leaves_connection_open:
  "fst (Login sim_env ''abc123'' (before_login [error_reply])) =
     Some (DiscordError (JStr ''invalid client id'')) \<and>
   sock_open (world (snd (Login sim_env ''abc123'' (before_login [error_reply]))))"
  by (simp add: Login_rejected_example)

text \<open>
  C4, as the code has it. From any state, \<open>Logout\<close> first sets the flag \<open>logged\<close> to
  false and then calls \<open>ipc.CloseSocket\<close> once. It returns normally when the close
  reports no error and panics with the error the close reports otherwise; the flag is
  false in both cases, and after a second \<open>Logout\<close> as well.
\<close>

theorem Logout_forces_not_logged:
  "fst (Logout env s) =
     (case fst (ipc_CloseSocket env (world s)) of None \<Rightarrow> Returned | Some err \<Rightarrow> Panicked err) \<and>
   snd (Logout env s) = \<lparr>logged = False, world = snd (ipc_CloseSocket env (world s))\<rparr> \<and>
   \<not> logged (snd (Logout env (snd (Logout env s))))"
  by (simp add: Logout_def Let_def case_prod_beta split: option.splits)

theorem Logout_forces_not_logged_witness:
  "Logout sim_env (ready []) = (Returned, \<lparr>logged = False, world = fresh\<rparr>) \<and>
   Logout sim_env (snd (Logout sim_env (ready []))) = (Returned, \<lparr>logged = False, world = fresh\<rparr>)"
proof -
  have "fst (ipc_CloseSocket sim_env (world (ready []))) = None"
    by (simp add: sim_defs)
  moreover have "snd (ipc_CloseSocket sim_env (world (ready []))) = fresh"
    by (simp add: sim_defs)
  moreover have "fst (ipc_CloseSocket sim_env fresh) = None"
    by (simp add: sim_defs)
  moreover have "snd (ipc_CloseSocket sim_env fresh) = fresh"
    by (simp add: sim_defs)
  ultimately show ?thesis
    using Logout_forces_not_logged [of sim_env "ready []"]
      Logout_forces_not_logged [of sim_env "\<lparr>logged = False, world = fresh\<rparr>"]
    by (simp add: prod_eq_iff)
qed

text \<open>
  When closing the connection reports an error, \<open>Logout\<close> panics: the opposite of what
  C4 says of that case.
\<close>

theorem Logout_panics_on_close_error:
  "fst (Logout sim_env \<lparr>logged = True, world = fresh\<lparr>sock_open := True, close_fails := True\<rparr>\<rparr>) =
     Panicked (External ''close failed'')"
  by (simp add: Logout_def Let_def case_prod_beta) (simp add: sim_defs)

text \<open>
  C8. A login that succeeds from the not-logged state has opened the socket and made
  one call of \<open>ipc.Send\<close>, with opcode 0 and the text of the document
  \<open>{v: "1", client_id: <the identifier>}\<close>. Any further \<open>Login\<close>, with any identifier,
  returns nil and leaves the whole state as it is: no socket is opened and no frame
  sent, so that handshake frame stays the only one.
\<close>

theorem Login_idempotent_once_logged:
  assumes "\<not> logged s" and "Login env clientid s = (None, s')"
  shows "Login env other s' = (None, s') \<and> logged s' \<and>
         (\<exists>body. json_Marshal env (spec_handshake_payload clientid) = Inr body \<and>
            world s' = snd (ipc_Send env 0 body (snd (ipc_OpenSocket env (world s)))))"
  using assms
  by (auto simp add: Login_def Let_def case_prod_beta marshal_Handshake_spec
      split: sum.splits option.splits if_splits)

lemma Login_accepted_example:
  "Login sim_env ''abc123'' (before_login [dispatch_reply]) =
     (None,
      \<lparr>logged = True,
       world = fresh\<lparr>sock_open := True, inbox := [], outbox := [(0, handshake_text)]\<rparr>\<rparr>)"
  by (simp add: Login_def Let_def case_prod_beta marshal_Handshake_def) (simp add: sim_defs)

theorem Login_idempotent_once_logged_witness:
  "\<not> logged (before_login [dispatch_reply]) \<and>
   Login sim_env ''abc123'' (before_login [dispatch_reply]) =
     (None, \<lparr>logged = True,
             world = fresh\<lparr>sock_open := True, inbox := [], outbox := [(0, handshake_text)]\<rparr>\<rparr>) \<and>
   Login sim_env ''xyz'' (snd (Login sim_env ''abc123'' (before_login [dispatch_reply]))) =
     (None, \<lparr>logged = True,
             world = fresh\<lparr>sock_open := True, inbox := [], outbox := [(0, handshake_text)]\<rparr>\<rparr>)"
proof -
  have a: "\<not> logged (before_login [dispatch_reply])"
    by (simp add: before_login_def)
  from Login_idempotent_once_logged [OF a Login_accepted_example, of "''xyz''"] a
  show ?thesis
    by (simp add: Login_accepted_example)
qed

text \<open>
  C9. The flag \<open>logged\<close> is true after \<open>Login\<close> exactly when \<open>Login\<close> returned nil. So
  after every error return (encoding the handshake, opening the socket, sending, parsing
  the reply, an \<open>ERROR\<close> event tag, parsing the handshake data) the flag is false and a
  following \<open>SetActivity\<close> is a no-op that returns nil.
\<close>

theorem Login_error_keeps_not_logged:
  "logged (snd (Login env clientid s)) = (fst (Login env clientid s) = None) \<and>
   (fst (Login env clientid s) \<noteq> None \<longrightarrow>
      SetActivity env activity (snd (Login env clientid s)) = (None, snd (Login env clientid s)))"
  by (auto simp add: Login_def SetActivity_def Let_def case_prod_beta
      split: sum.splits option.splits)

theorem Login_error_keeps_not_logged_witness:
  "fst (Login sim_env ''abc123'' \<lparr>logged = False, world = fresh\<lparr>endpoint_available := False\<rparr>\<rparr>) =
     Some (External ''EndpointExhausted'') \<and>
   \<not> logged (snd (Login sim_env ''abc123''
       \<lparr>logged = False, world = fresh\<lparr>endpoint_available := False\<rparr>\<rparr>)) \<and>
   fst (SetActivity sim_env playing (snd (Login sim_env ''abc123''
       \<lparr>logged = False, world = fresh\<lparr>endpoint_available := False\<rparr>\<rparr>))) = None"
proof -
  let ?s = "\<lparr>logged = False, world = fresh\<lparr>endpoint_available := False\<rparr>\<rparr>"
  have r: "fst (Login sim_env ''abc123'' ?s) = Some (External ''EndpointExhausted'')"
    by (simp add: Login_def Let_def case_prod_beta marshal_Handshake_def) (simp add: sim_defs)
  from Login_error_keeps_not_logged [of sim_env "''abc123''" ?s playing] r
  show ?thesis by simp
qed

subsection \<open>Serialization of the activity payload\<close>

text \<open>
  C6 fails on the code for the assets. The field \<open>Assets\<close> has struct type, so its
  \<open>omitempty\<close> option never applies: the zero payload, in which nothing is populated,
  is serialized with an explicit empty \<open>assets\<close> object.
\<close>

theorem empty_assets_are_emitted:
  "marshal_PayloadActivity zero_PayloadActivity = JObj [(''assets'', JObj [])]"
  by (simp add: zero_PayloadActivity_def zero_PayloadAssets_def marshal_defs)

text \<open>The pointer and slice fields beside it are left out when nil or empty.\<close>

lemma absent_members_are_omitted:
  "(''party'' \<in> set (member_names (marshal_PayloadActivity a))) = (Party a \<noteq> None)"
  "(''timestamps'' \<in> set (member_names (marshal_PayloadActivity a))) = (Timestamps a \<noteq> None)"
  "(''secrets'' \<in> set (member_names (marshal_PayloadActivity a))) = (Secrets a \<noteq> None)"
  "(''buttons'' \<in> set (member_names (marshal_PayloadActivity a))) = (Buttons a \<noteq> [])"
  "''assets'' \<in> set (member_names (marshal_PayloadActivity a))"
  by (cases "Party a"; cases "Timestamps a"; cases "Secrets a";
      simp add: member_names_def marshal_PayloadActivity_def omitempty_string_def
        omitempty_int_def omitempty_ptr_def omitempty_slice_def)+

subsection \<open>The frame codec\<close>

lemma get_put_u32le: "get_u32le (put_u32le x) = x"
proof (rule bit_word_eqI)
  fix n assume n: "n < LENGTH(32)"
  consider "n < 8" | "8 \<le> n" "n < 16" | "16 \<le> n" "n < 24" | "24 \<le> n" "n < 32"
    using n by fastforce
  then show "bit (get_u32le (put_u32le x)) n = bit x n"
    by cases (auto simp: get_u32le_def put_u32le_def bit_simps)
qed

lemma length_put_u32le: "length (put_u32le x) = 4"
  by (simp add: put_u32le_def)

lemma unat_put_u32le:
  assumes "i < 4"
  shows "unat (put_u32le x ! i) = unat x div 256 ^ i mod 256"
proof -
  from assms consider "i = 0" | "i = 1" | "i = 2" | "i = 3" by linarith
  then show ?thesis
    by cases (simp_all add: put_u32le_def unsigned_ucast_eq unat_drop_bit_eq take_bit_eq_mod
        drop_bit_eq_div unat_div)
qed

lemma decode_encode:
  assumes "length bs < 2 ^ 32"
  shows "decode (encode opc bs @ rest) =
    Inr (\<lparr>opcode = opc, len = of_nat (length bs), payload = bs\<rparr>, rest)"
proof -
  have n: "unat (of_nat (length bs) :: 32 word) = length bs"
    using assms by (simp add: unat_of_nat)
  show ?thesis
    by (simp add: decode_def encode_def length_put_u32le get_put_u32le n Let_def)
qed

text \<open>
  C7. For every 32-bit opcode and every payload shorter than \<open>2 ^ 32\<close> bytes, decoding
  the encoded frame gives back that opcode and that payload (and leaves nothing of the
  stream). The encoded frame is 8 header bytes, the opcode and then the payload length,
  each as four bytes with the least significant first, followed by the payload bytes.
\<close>

theorem codec_round_trip:
  assumes "length bs < 2 ^ 32"
  shows "decode (encode opc bs) =
           Inr (\<lparr>opcode = opc, len = of_nat (length bs), payload = bs\<rparr>, []) \<and>
         length (encode opc bs) = 8 + length bs \<and>
         (\<forall>i<4. unat (encode opc bs ! i) = unat opc div 256 ^ i mod 256) \<and>
         (\<forall>i<4. unat (encode opc bs ! (4 + i)) = length bs div 256 ^ i mod 256) \<and>
         drop 8 (encode opc bs) = bs"
proof -
  have n: "unat (of_nat (length bs) :: 32 word) = length bs"
    using assms by (simp add: unat_of_nat)
  have "decode (encode opc bs) =
      Inr (\<lparr>opcode = opc, len = of_nat (length bs), payload = bs\<rparr>, [])"
    using decode_encode [OF assms, of opc "[]"] by simp
  moreover have "length (encode opc bs) = 8 + length bs"
    by (simp add: encode_def length_put_u32le)
  moreover have "\<forall>i<4. unat (encode opc bs ! i) = unat opc div 256 ^ i mod 256"
    by (simp add: encode_def nth_append length_put_u32le unat_put_u32le)
  moreover have "\<forall>i<4. unat (encode opc bs ! (4 + i)) = length bs div 256 ^ i mod 256"
    by (simp add: encode_def nth_append length_put_u32le unat_put_u32le n)
  moreover have "drop 8 (encode opc bs) = bs"
    by (simp add: encode_def length_put_u32le)
  ultimately show ?thesis by blast
qed

theorem codec_round_trip_witness:
  "length [0x7b, 0x7d :: byte] < 2 ^ 32 \<and>
   encode 1 [0x7b, 0x7d] = [1, 0, 0, 0, 2, 0, 0, 0, 0x7b, 0x7d] \<and>
   decode (encode 1 [0x7b, 0x7d]) = Inr (\<lparr>opcode = 1, len = 2, payload = [0x7b, 0x7d]\<rparr>, [])"
proof -
  have a: "length [0x7b, 0x7d :: byte] < 2 ^ 32" by simp
  have e: "encode 1 [0x7b, 0x7d] = [1, 0, 0, 0, 2, 0, 0, 0, 0x7b, 0x7d]"
    by (simp add: encode_def put_u32le_def)
  from codec_round_trip [OF a, of 1] a e show ?thesis by simp
qed

subsection \<open>Correlation identifiers\<close>

lemma patched_nibble: "unat ((x AND 0x0f) OR 0x40 :: byte) div 16 = 4"
proof -
  have "drop_bit 4 ((x AND 0x0f) OR 0x40 :: byte) = 4"
    by (rule bit_word_eqI) (auto simp: bit_simps)
  then have "unat (drop_bit 4 ((x AND 0x0f) OR 0x40 :: byte)) = 4"
    by simp
  then show ?thesis
    by (simp add: unat_drop_bit_eq drop_bit_eq_div unat_div)
qed

lemma length_hex: "length (hex bs) = 2 * length bs"
  by (induction bs) (simp_all add: hex_def hex_byte_def)

lemma hex_digit_lower: "hex_digit n \<in> set ''0123456789abcdef''"
proof -
  have "n mod 16 < length ''0123456789abcdef''" by simp
  then show ?thesis unfolding hex_digit_def by (rule nth_mem)
qed

lemma set_hex: "c \<in> set (hex bs) \<Longrightarrow> c \<in> set ''0123456789abcdef''"
  using hex_digit_lower by (auto simp: hex_def hex_byte_def)

lemma length_read_into: "length (read_into buf rs) = length buf"
  by (simp add: read_into_def)

lemma length_subslice: "hi \<le> length xs \<Longrightarrow> length (subslice lo hi xs) = hi - lo"
  by (simp add: subslice_def)

lemma hd_hex_subslice:
  assumes "lo < hi" and "lo < length xs"
  shows "hd (hex (subslice lo hi xs)) = hex_digit (unat (xs ! lo) div 16)"
proof -
  obtain k where k: "hi - lo = Suc k"
    using assms(1) by (cases "hi - lo") auto
  have "drop lo xs = xs ! lo # drop (Suc lo) xs"
    using assms(2) by (simp add: Cons_nth_drop_Suc)
  then show ?thesis
    by (simp add: subslice_def k hex_def hex_byte_def)
qed

lemma getNonce_buf:
  "fst (getNonce env w) =
     hex (subslice 0 4 (nonce_buf env w)) @ ''-'' @ hex (subslice 4 6 (nonce_buf env w)) @ ''-'' @
     hex (subslice 6 8 (nonce_buf env w)) @ ''-'' @ hex (subslice 8 10 (nonce_buf env w)) @ ''-'' @
     hex (subslice 10 16 (nonce_buf env w))"
  by (simp add: getNonce_def nonce_buf_def Let_def length_read_into case_prod_beta)

lemma length_nonce_buf: "length (nonce_buf env w) = 16"
  by (simp add: nonce_buf_def Let_def length_read_into)

lemma nonce_buf_6: "\<exists>x. nonce_buf env w ! 6 = (x AND 0x0f) OR 0x40"
  by (auto simp: nonce_buf_def Let_def length_read_into)

text \<open>
  What \<open>getNonce\<close> returns when \<open>rand.Read\<close> returned to it, for every answer of the
  random source.
\<close>

lemma getNonce_result_shape:
  "\<exists>g1 g2 g3 g4 g5.
     fst (getNonce env w) = g1 @ ''-'' @ g2 @ ''-'' @ g3 @ ''-'' @ g4 @ ''-'' @ g5 \<and>
     length g1 = 8 \<and> length g2 = 4 \<and> length g3 = 4 \<and> length g4 = 4 \<and> length g5 = 12 \<and>
     (\<forall>c \<in> set (g1 @ g2 @ g3 @ g4 @ g5). c \<in> set ''0123456789abcdef'') \<and>
     hd g3 = CHR ''4''"
proof -
  let ?b = "nonce_buf env w"
  obtain x where x: "?b ! 6 = (x AND 0x0f) OR 0x40"
    using nonce_buf_6 [of env w] by auto
  have len: "length ?b = 16"
    by (rule length_nonce_buf)
  have "hd (hex (subslice 6 8 ?b)) = hex_digit (unat (?b ! 6) div 16)"
    by (rule hd_hex_subslice) (simp_all add: len)
  also have "\<dots> = CHR ''4''"
    by (simp add: x patched_nibble hex_digit_def)
  finally have h: "hd (hex (subslice 6 8 ?b)) = CHR ''4''" .
  have hexset: "\<And>bs c. c \<in> set (hex bs) \<Longrightarrow> c \<in> set ''0123456789abcdef''"
    by (rule set_hex)
  show ?thesis
  proof (intro exI conjI)
    show "fst (getNonce env w) =
      hex (subslice 0 4 ?b) @ ''-'' @ hex (subslice 4 6 ?b) @ ''-'' @ hex (subslice 6 8 ?b) @ ''-'' @
      hex (subslice 8 10 ?b) @ ''-'' @ hex (subslice 10 16 ?b)"
      by (rule getNonce_buf)
    show "length (hex (subslice 0 4 ?b)) = 8" by (simp add: length_hex length_subslice len)
    show "length (hex (subslice 4 6 ?b)) = 4" by (simp add: length_hex length_subslice len)
    show "length (hex (subslice 6 8 ?b)) = 4" by (simp add: length_hex length_subslice len)
    show "length (hex (subslice 8 10 ?b)) = 4" by (simp add: length_hex length_subslice len)
    show "length (hex (subslice 10 16 ?b)) = 12" by (simp add: length_hex length_subslice len)
    show "\<forall>c \<in> set (hex (subslice 0 4 ?b) @ hex (subslice 4 6 ?b) @ hex (subslice 6 8 ?b) @
                     hex (subslice 8 10 ?b) @ hex (subslice 10 16 ?b)).
            c \<in> set ''0123456789abcdef''"
      using hexset by (simp only: set_append Un_iff) blast
    show "hd (hex (subslice 6 8 ?b)) = CHR ''4''" by (rule h)
  qed
qed

lemma length_getNonce: "length (fst (getNonce env w)) = 36"
  by (simp add: getNonce_buf length_hex length_subslice length_nonce_buf)

lemma getNonce_world:
  "snd (getNonce env w) =
     (case snd (fst (rand_Read env 16 w)) of
        None \<Rightarrow> snd (rand_Read env 16 w)
      | Some err \<Rightarrow> fmt_Println env err (snd (rand_Read env 16 w)))"
  by (simp add: getNonce_def Let_def case_prod_beta split: option.splits)

lemma getNonce_on_None:
  "(getNonce_on tc env w = None) =
     (tc = Since_Go_1_24 \<and> snd (fst (rand_Read env 16 w)) \<noteq> None)"
  by (cases tc; cases "snd (fst (rand_Read env 16 w))")
     (simp_all add: getNonce_on_def crypto_rand_Read_def)

lemma getNonce_on_Some:
  "getNonce_on tc env w = Some r \<Longrightarrow> r = getNonce env w"
  by (simp add: getNonce_on_def split: option.splits)

text \<open>
  C10, as the code has it. \<open>getNonce\<close> has no error result, and whenever \<open>rand.Read\<close>
  returns to it, it returns a string of 36 characters: five groups of lowercase
  hexadecimal digits of lengths 8, 4, 4, 4 and 12 separated by hyphens, the third group
  beginning with the digit 4; an error that \<open>rand.Read\<close> returned is printed and nothing
  else. It returns on every call on a toolchain before Go 1.24. From Go 1.24 on it does
  not return exactly when the random source fails: the process is ended inside
  \<open>rand.Read\<close>.
\<close>

theorem getNonce_well_formed_unless_aborted:
  "(getNonce_on tc env w = None) =
     (tc = Since_Go_1_24 \<and> snd (fst (rand_Read env 16 w)) \<noteq> None) \<and>
   (\<forall>nonce w'. getNonce_on tc env w = Some (nonce, w') \<longrightarrow>
      (\<exists>g1 g2 g3 g4 g5.
         nonce = g1 @ ''-'' @ g2 @ ''-'' @ g3 @ ''-'' @ g4 @ ''-'' @ g5 \<and>
         length g1 = 8 \<and> length g2 = 4 \<and> length g3 = 4 \<and> length g4 = 4 \<and> length g5 = 12 \<and>
         (\<forall>c \<in> set (g1 @ g2 @ g3 @ g4 @ g5). c \<in> set ''0123456789abcdef'') \<and>
         hd g3 = CHR ''4'') \<and>
      length nonce = 36 \<and>
      w' = (case snd (fst (rand_Read env 16 w)) of
              None \<Rightarrow> snd (rand_Read env 16 w)
            | Some err \<Rightarrow> fmt_Println env err (snd (rand_Read env 16 w))))"
proof (intro conjI allI impI)
  show "(getNonce_on tc env w = None) =
      (tc = Since_Go_1_24 \<and> snd (fst (rand_Read env 16 w)) \<noteq> None)"
    by (rule getNonce_on_None)
next
  fix nonce w'
  assume "getNonce_on tc env w = Some (nonce, w')"
  then have r: "(nonce, w') = getNonce env w"
    by (rule getNonce_on_Some)
  have n: "nonce = fst (getNonce env w)" and w: "w' = snd (getNonce env w)"
    using r by (simp_all add: prod_eq_iff)
  show "\<exists>g1 g2 g3 g4 g5.
         nonce = g1 @ ''-'' @ g2 @ ''-'' @ g3 @ ''-'' @ g4 @ ''-'' @ g5 \<and>
         length g1 = 8 \<and> length g2 = 4 \<and> length g3 = 4 \<and> length g4 = 4 \<and> length g5 = 12 \<and>
         (\<forall>c \<in> set (g1 @ g2 @ g3 @ g4 @ g5). c \<in> set ''0123456789abcdef'') \<and>
         hd g3 = CHR ''4''"
    unfolding n by (rule getNonce_result_shape)
  show "length nonce = 36"
    unfolding n by (rule length_getNonce)
  show "w' = (case snd (fst (rand_Read env 16 w)) of
              None \<Rightarrow> snd (rand_Read env 16 w)
            | Some err \<Rightarrow> fmt_Println env err (snd (rand_Read env 16 w)))"
    unfolding w by (rule getNonce_world)
qed

lemma zeroed_buffer:
  "replicate 16 (0 :: byte) = [0, 0, 0, 0, 0, 0, 0, 0, 0, 0, 0, 0, 0, 0, 0, 0]"
  by (simp add: eval_nat_numeral)

lemma getNonce_without_entropy:
  "getNonce sim_env (fresh\<lparr>entropy := []\<rparr>) =
     (''00000000-0000-4000-0000-000000000000'',
      fresh\<lparr>entropy := [], stdout := [External ''EOF'']\<rparr>)"
  by (simp add: getNonce_def sim_defs read_into_def zeroed_buffer hex_def hex_byte_def
      hex_digit_def subslice_def Let_def)

lemma source_without_entropy:
  "snd (fst (rand_Read sim_env 16 (fresh\<lparr>entropy := []\<rparr>))) = Some (External ''EOF'')"
  by (simp add: sim_defs)

lemma source_with_entropy:
  "snd (fst (rand_Read sim_env 16 (world (ready [])))) = None"
  by (simp add: sim_defs)

text \<open>
  Two runs: Go 1.24 or later on a random source that delivers, and an earlier toolchain
  on a random source that is empty.
\<close>

theorem getNonce_well_formed_unless_aborted_witness:
  "getNonce_on Since_Go_1_24 sim_env (world (ready [])) =
     Some (''00010203-0405-4607-0809-0a0b0c0d0e0f'', (world (ready []))\<lparr>entropy := []\<rparr>) \<and>
   length ''00010203-0405-4607-0809-0a0b0c0d0e0f'' = 36 \<and>
   getNonce_on Before_Go_1_24 sim_env (fresh\<lparr>entropy := []\<rparr>) =
     Some (''00000000-0000-4000-0000-000000000000'',
           fresh\<lparr>entropy := [], stdout := [External ''EOF'']\<rparr>) \<and>
   (\<exists>g1 g2 g3 g4 g5.
     ''00000000-0000-4000-0000-000000000000'' =
       g1 @ ''-'' @ g2 @ ''-'' @ g3 @ ''-'' @ g4 @ ''-'' @ g5 \<and>
     length g1 = 8 \<and> length g2 = 4 \<and> length g3 = 4 \<and> length g4 = 4 \<and> length g5 = 12 \<and>
     (\<forall>c \<in> set (g1 @ g2 @ g3 @ g4 @ g5). c \<in> set ''0123456789abcdef'') \<and>
     hd g3 = CHR ''4'')"
proof -
  have a: "getNonce_on Since_Go_1_24 sim_env (world (ready [])) =
      Some (''00010203-0405-4607-0809-0a0b0c0d0e0f'', (world (ready []))\<lparr>entropy := []\<rparr>)"
    by (simp add: getNonce_on_def crypto_rand_Read_def source_with_entropy getNonce_ready)
  have b: "getNonce_on Before_Go_1_24 sim_env (fresh\<lparr>entropy := []\<rparr>) =
      Some (''00000000-0000-4000-0000-000000000000'',
            fresh\<lparr>entropy := [], stdout := [External ''EOF'']\<rparr>)"
    by (simp add: getNonce_on_def crypto_rand_Read_def source_without_entropy
        getNonce_without_entropy)
  note t1 = getNonce_well_formed_unless_aborted
    [of Since_Go_1_24 sim_env "world (ready [])", THEN conjunct2, rule_format, OF a]
  note t2 = getNonce_well_formed_unless_aborted
    [of Before_Go_1_24 sim_env "fresh\<lparr>entropy := []\<rparr>", THEN conjunct2, rule_format, OF b]
  from a b t1 t2 show ?thesis by blast
qed

text \<open>
  On Go 1.24 or later, with a random source that fails, \<open>getNonce\<close> does not return: the
  opposite of what C10 says of that call.
\<close>

theorem getNonce_aborts_on_failing_source:
  "getNonce_on Since_Go_1_24 sim_env (fresh\<lparr>entropy := []\<rparr>) = None"
  by (simp add: getNonce_on_def crypto_rand_Read_def source_without_entropy)

end
